theory Spec2Isabelle
  imports Main
begin

section \<open>Data model (src/src/generators/types/index.ts)\<close>

text \<open>
  \<^verbatim>\<open>ProjectOptions\<close> is an interface whose properties are all optional. An optional
  property is modelled as an \<open>option\<close>: \<open>None\<close> is a property that is absent (reading it
  gives \<^verbatim>\<open>undefined\<close>), \<open>Some v\<close> a property holding \<open>v\<close>. A property that is present and
  holds \<^verbatim>\<open>undefined\<close> is not represented. Strings are ASCII character lists. Three properties are renamed because the source's name is taken by a constant of
  HOL: \<^verbatim>\<open>all\<close>, \<^verbatim>\<open>prod\<close> and \<^verbatim>\<open>min\<close> are \<open>all_preset\<close>, \<open>prod_preset\<close> and \<open>min_preset\<close>.
\<close>

record ProjectOptions =
  view :: "string option"
  css :: "string option"
  git :: "bool option"
  noView :: "bool option"
  light :: "bool option"
  all_preset :: "bool option"
  prod_preset :: "bool option"
  min_preset :: "bool option"
  typescript :: "bool option"
  javascript :: "bool option"
  swagger :: "bool option"
  docker :: "bool option"
  mongodb :: "bool option"
  postgres :: "bool option"
  redis :: "bool option"
  test :: "bool option"
  elk :: "bool option"
  auth :: "bool option"
  cors :: "bool option"
  helmet :: "bool option"
  rateLimit :: "bool option"
  validation :: "bool option"
  api :: "bool option"
  fullstack :: "bool option"
  microservice :: "bool option"
  startup :: "bool option"
  skipInstall :: "bool option"
  skipGit :: "bool option"
  verbose :: "bool option"
  dryRun :: "bool option"

record ResolvedOptions = ProjectOptions +
  projectName :: string
  projectPath :: string
  packageManager :: string
  isTypescript :: bool
  features :: "string list"

record PresetDefinition =
  preset_name :: string
  preset_description :: string
  preset_options :: ProjectOptions
  preset_example :: "string option"

record ValidationResult =
  valid :: bool
  errors :: "string list"
  warnings :: "string list"

subsection \<open>JavaScript truthiness and object spread\<close>

text \<open>
  A condition \<^verbatim>\<open>if (options.flag)\<close> on an optional boolean holds exactly when the
  property is present and \<^verbatim>\<open>true\<close>; on an optional string, when it is present and not
  the empty string.
\<close>

definition truthy :: "bool option \<Rightarrow> bool" where
  "truthy b = (b = Some True)"

definition truthyStr :: "string option \<Rightarrow> bool" where
  "truthyStr s = (case s of None \<Rightarrow> False | Some v \<Rightarrow> v \<noteq> [])"

text \<open>A template literal \<^verbatim>\<open>`${s}`\<close> prints an absent property as \<^verbatim>\<open>undefined\<close>.\<close>

definition interpolate :: "string option \<Rightarrow> string" where
  "interpolate s = (case s of None \<Rightarrow> ''undefined'' | Some v \<Rightarrow> v)"

text \<open>The object with no property: \<^verbatim>\<open>{}\<close>.\<close>

definition emptyOptions :: ProjectOptions where
  "emptyOptions = \<lparr> view = None, css = None, git = None, noView = None, light = None,
     all_preset = None, prod_preset = None, min_preset = None, typescript = None,
     javascript = None, swagger = None, docker = None, mongodb = None, postgres = None,
     redis = None, test = None, elk = None, auth = None, cors = None, helmet = None,
     rateLimit = None, validation = None, api = None, fullstack = None,
     microservice = None, startup = None, skipInstall = None, skipGit = None,
     verbose = None, dryRun = None \<rparr>"

text \<open>
  One property of \<^verbatim>\<open>{ ...a, ...b }\<close>: the value of \<open>b\<close> when \<open>b\<close> has the property, the
  value of \<open>a\<close> otherwise.
\<close>

definition over :: "'a option \<Rightarrow> 'a option \<Rightarrow> 'a option" where
  "over a b = (case b of None \<Rightarrow> a | Some v \<Rightarrow> Some v)"

definition spread :: "ProjectOptions \<Rightarrow> ProjectOptions \<Rightarrow> ProjectOptions" where
  "spread a b = \<lparr> view = over (view a) (view b), css = over (css a) (css b),
     git = over (git a) (git b), noView = over (noView a) (noView b),
     light = over (light a) (light b), all_preset = over (all_preset a) (all_preset b),
     prod_preset = over (prod_preset a) (prod_preset b),
     min_preset = over (min_preset a) (min_preset b),
     typescript = over (typescript a) (typescript b),
     javascript = over (javascript a) (javascript b),
     swagger = over (swagger a) (swagger b), docker = over (docker a) (docker b),
     mongodb = over (mongodb a) (mongodb b), postgres = over (postgres a) (postgres b),
     redis = over (redis a) (redis b), test = over (test a) (test b),
     elk = over (elk a) (elk b), auth = over (auth a) (auth b),
     cors = over (cors a) (cors b), helmet = over (helmet a) (helmet b),
     rateLimit = over (rateLimit a) (rateLimit b),
     validation = over (validation a) (validation b), api = over (api a) (api b),
     fullstack = over (fullstack a) (fullstack b),
     microservice = over (microservice a) (microservice b),
     startup = over (startup a) (startup b),
     skipInstall = over (skipInstall a) (skipInstall b),
     skipGit = over (skipGit a) (skipGit b), verbose = over (verbose a) (verbose b),
     dryRun = over (dryRun a) (dryRun b) \<rparr>"

section \<open>Constants (constants.ts, in src/unnamed/part_008)\<close>

definition SUPPORTED_VIEW_ENGINES :: "string list" where
  "SUPPORTED_VIEW_ENGINES = [''ejs'', ''pug'', ''hbs'', ''hogan'', ''mustache'', ''handlebars'']"

definition SUPPORTED_CSS_ENGINES :: "string list" where
  "SUPPORTED_CSS_ENGINES = [''less'', ''sass'', ''scss'', ''stylus'', ''compass'']"

definition PRESET_DEFINITIONS :: "PresetDefinition list" where
  "PRESET_DEFINITIONS = [
     \<lparr> preset_name = ''light'',
       preset_description =
         ''Lightweight structure with essentials (TypeScript, basic structure)'',
       preset_options = emptyOptions \<lparr> light := Some True, typescript := Some True \<rparr>,
       preset_example = Some ''exgen my-app --light'' \<rparr>,
     \<lparr> preset_name = ''api'',
       preset_description =
         ''REST API preset with TypeScript, CORS, Helmet, Validation, Tests'',
       preset_options = emptyOptions \<lparr> api := Some True, typescript := Some True,
         cors := Some True, helmet := Some True, validation := Some True,
         test := Some True, noView := Some True \<rparr>,
       preset_example = Some ''exgen my-api --api'' \<rparr>,
     \<lparr> preset_name = ''fullstack'',
       preset_description =
         ''Full-stack application with views, authentication, and database'',
       preset_options = emptyOptions \<lparr> fullstack := Some True, view := Some ''ejs'',
         css := Some ''sass'', auth := Some True, mongodb := Some True,
         test := Some True \<rparr>,
       preset_example = Some ''exgen my-fullstack-app --fullstack'' \<rparr>,
     \<lparr> preset_name = ''microservice'',
       preset_description = ''Microservice-ready with Docker, Redis, Tests, and Logging'',
       preset_options = emptyOptions \<lparr> microservice := Some True,
         typescript := Some True, docker := Some True, redis := Some True,
         test := Some True, elk := Some True, noView := Some True, cors := Some True,
         helmet := Some True \<rparr>,
       preset_example = Some ''exgen my-service --microservice'' \<rparr>,
     \<lparr> preset_name = ''startup'',
       preset_description =
         ''Startup-ready with everything: TypeScript, MongoDB, Auth, Swagger, Docker, Tests'',
       preset_options = emptyOptions \<lparr> startup := Some True, typescript := Some True,
         mongodb := Some True, auth := Some True, swagger := Some True,
         docker := Some True, test := Some True, cors := Some True, helmet := Some True,
         rateLimit := Some True, validation := Some True \<rparr>,
       preset_example = Some ''exgen my-startup --startup'' \<rparr>,
     \<lparr> preset_name = ''prod'',
       preset_description = ''Full production setup with Docker, Swagger, ELK, Tests'',
       preset_options = emptyOptions \<lparr> prod_preset := Some True,
         typescript := Some True, swagger := Some True, docker := Some True,
         test := Some True, elk := Some True, cors := Some True, helmet := Some True,
         rateLimit := Some True \<rparr>,
       preset_example = Some ''exgen my-prod-app --prod'' \<rparr>,
     \<lparr> preset_name = ''min'',
       preset_description = ''Minimal production setup (excludes Docker and Swagger)'',
       preset_options = emptyOptions \<lparr> min_preset := Some True,
         typescript := Some True, test := Some True, cors := Some True,
         helmet := Some True \<rparr>,
       preset_example = Some ''exgen my-min-app --min'' \<rparr> ]"

section \<open>Option resolution (src/src/utils/options.ts)\<close>

text \<open>
  \<^verbatim>\<open>PRESET_DEFINITIONS.find((p) => p.name === presetName)\<close>, then
  \<^verbatim>\<open>preset?.options || {}\<close>.
\<close>

definition getPresetOptions :: "string \<Rightarrow> ProjectOptions" where
  "getPresetOptions presetName =
     (case find (\<lambda>p. preset_name p = presetName) PRESET_DEFINITIONS of
        None \<Rightarrow> emptyOptions
      | Some preset \<Rightarrow> preset_options preset)"

definition getAllPresetOptions :: ProjectOptions where
  "getAllPresetOptions = emptyOptions \<lparr> typescript := Some True, cors := Some True,
     helmet := Some True, rateLimit := Some True, validation := Some True,
     test := Some True, elk := Some True \<rparr>"

text \<open>
  One step of \<open>applyPresets\<close>: \<^verbatim>\<open>if (flag) { resolved = { ...resolved, ...bundle } }\<close>.
\<close>

definition applyIf :: "bool option \<Rightarrow> ProjectOptions \<Rightarrow> ProjectOptions \<Rightarrow> ProjectOptions" where
  "applyIf flag bundle resolved = (if truthy flag then spread resolved bundle else resolved)"

text \<open>
  The presets are tested on the original \<open>options\<close>, in the order light, api, fullstack,
  microservice, startup, min, prod, all; the original options are spread over the result.
\<close>

definition applyPresets :: "ProjectOptions \<Rightarrow> ProjectOptions" where
  "applyPresets options =
     (let resolved = options;
          resolved = applyIf (light options) (getPresetOptions ''light'') resolved;
          resolved = applyIf (api options) (getPresetOptions ''api'') resolved;
          resolved = applyIf (fullstack options) (getPresetOptions ''fullstack'') resolved;
          resolved = applyIf (microservice options) (getPresetOptions ''microservice'') resolved;
          resolved = applyIf (startup options) (getPresetOptions ''startup'') resolved;
          resolved = applyIf (min_preset options) (getPresetOptions ''min'') resolved;
          resolved = applyIf (prod_preset options) (getPresetOptions ''prod'') resolved;
          resolved = applyIf (all_preset options) getAllPresetOptions resolved
      in spread resolved options)"

definition resolveTypeScript :: "'a ProjectOptions_scheme \<Rightarrow> bool" where
  "resolveTypeScript options =
     (if truthy (javascript options) \<and> \<not> truthy (typescript options) then False
      else if truthy (typescript options) \<or> truthy (api options) \<or>
              truthy (microservice options) \<or> truthy (startup options) \<or>
              truthy (prod_preset options) \<or> truthy (min_preset options) \<or>
              truthy (light options)
      then True
      else False)"

text \<open>\<^verbatim>\<open>if (c) { features.push(x) }\<close> contributes \<open>[x]\<close> or nothing.\<close>

definition pushIf :: "bool \<Rightarrow> 'a list \<Rightarrow> 'a list" where
  "pushIf c xs = (if c then xs else [])"

definition determineFeatures :: "'a ProjectOptions_scheme \<Rightarrow> string list" where
  "determineFeatures options =
     (if resolveTypeScript options then [''TypeScript''] else [''JavaScript''])
     @ (if \<not> truthy (noView options)
        then (if truthyStr (view options) then [''View: '' @ interpolate (view options)]
              else if truthy (fullstack options) then [''View: EJS''] else [])
        else [])
     @ pushIf (truthyStr (css options)) [''CSS: '' @ interpolate (css options)]
     @ pushIf (truthy (mongodb options)) [''MongoDB'']
     @ pushIf (truthy (postgres options)) [''PostgreSQL'']
     @ pushIf (truthy (redis options)) [''Redis'']
     @ pushIf (truthy (auth options)) [''JWT Auth'']
     @ pushIf (truthy (cors options)) [''CORS'']
     @ pushIf (truthy (helmet options)) [''Helmet'']
     @ pushIf (truthy (rateLimit options)) [''Rate Limiting'']
     @ pushIf (truthy (validation options)) [''Joi Validation'']
     @ pushIf (truthy (swagger options)) [''Swagger/OpenAPI'']
     @ pushIf (truthy (test options)) [''Jest Testing'']
     @ pushIf (truthy (docker options)) [''Docker'']
     @ pushIf (truthy (elk options)) [''ELK Logging'']
     @ pushIf (git options \<noteq> Some False) [''Git'']"

definition getFinalViewEngine :: "'a ProjectOptions_scheme \<Rightarrow> string option" where
  "getFinalViewEngine options =
     (if truthy (noView options) then None
      else if truthyStr (view options) then view options
      else if truthy (fullstack options) then Some ''ejs''
      else None)"

definition getFinalCSSEngine :: "'a ProjectOptions_scheme \<Rightarrow> string option" where
  "getFinalCSSEngine options =
     (if truthyStr (css options) then css options
      else if truthy (fullstack options) then Some ''sass''
      else None)"

definition shouldIncludeFeature :: "string \<Rightarrow> 'a ResolvedOptions_scheme \<Rightarrow> bool" where
  "shouldIncludeFeature feature options =
     (if feature = ''view''
        then \<not> truthy (noView options) \<and> truthyStr (getFinalViewEngine options)
      else if feature = ''css'' then truthyStr (getFinalCSSEngine options)
      else if feature = ''typescript'' then isTypescript options
      else if feature = ''mongodb'' then truthy (mongodb options)
      else if feature = ''postgres'' then truthy (postgres options)
      else if feature = ''redis'' then truthy (redis options)
      else if feature = ''swagger'' then truthy (swagger options)
      else if feature = ''docker'' then truthy (docker options)
      else if feature = ''test'' then truthy (test options)
      else if feature = ''auth'' then truthy (auth options)
      else if feature = ''cors'' then truthy (cors options)
      else if feature = ''helmet'' then truthy (helmet options)
      else if feature = ''rateLimit'' then truthy (rateLimit options)
      else if feature = ''validation'' then truthy (validation options)
      else if feature = ''elk'' then truthy (elk options)
      else False)"

definition getRequiredDependencies :: "'a ResolvedOptions_scheme \<Rightarrow> string list" where
  "getRequiredDependencies options =
     [''express'', ''dotenv'']
     @ pushIf (shouldIncludeFeature ''cors'' options) [''cors'']
     @ pushIf (shouldIncludeFeature ''view'' options)
         ([''cookie-parser'', ''morgan'']
          @ (case getFinalViewEngine options of
               None \<Rightarrow> []
             | Some viewEngine \<Rightarrow> pushIf (viewEngine \<noteq> []) [viewEngine]))
     @ pushIf (shouldIncludeFeature ''css'' options)
         (let cssEngine = getFinalCSSEngine options
          in if cssEngine = Some ''sass'' \<or> cssEngine = Some ''scss''
               then [''node-sass-middleware'']
             else if cssEngine = Some ''less'' then [''less-middleware'']
             else if cssEngine = Some ''stylus'' then [''stylus'']
             else [])
     @ pushIf (shouldIncludeFeature ''mongodb'' options) [''mongoose'']
     @ pushIf (shouldIncludeFeature ''postgres'' options) [''sequelize'', ''pg'']
     @ pushIf (shouldIncludeFeature ''redis'' options) [''ioredis'']
     @ pushIf (shouldIncludeFeature ''swagger'' options)
         [''swagger-jsdoc'', ''swagger-ui-express'']
     @ pushIf (shouldIncludeFeature ''auth'' options) [''jsonwebtoken'', ''bcryptjs'']
     @ pushIf (shouldIncludeFeature ''helmet'' options) [''helmet'']
     @ pushIf (shouldIncludeFeature ''rateLimit'' options) [''express-rate-limit'']
     @ pushIf (shouldIncludeFeature ''validation'' options) [''joi'']
     @ pushIf (shouldIncludeFeature ''elk'' options) [''winston'', ''winston-elasticsearch'']"

definition getRequiredDevDependencies :: "'a ResolvedOptions_scheme \<Rightarrow> string list" where
  "getRequiredDevDependencies options =
     [''nodemon'']
     @ pushIf (shouldIncludeFeature ''typescript'' options)
         ([''typescript'', ''@types/node'', ''@types/express'', ''ts-node'', ''tsx'']
          @ pushIf (shouldIncludeFeature ''cors'' options) [''@types/cors'']
          @ pushIf (shouldIncludeFeature ''view'' options)
              (pushIf (getFinalViewEngine options = Some ''ejs'') [''@types/ejs''])
          @ pushIf (shouldIncludeFeature ''mongodb'' options) [''@types/mongoose'']
          @ pushIf (shouldIncludeFeature ''postgres'' options) [''@types/pg'']
          @ pushIf (shouldIncludeFeature ''redis'' options) [''@types/redis'']
          @ pushIf (shouldIncludeFeature ''swagger'' options)
              [''@types/swagger-jsdoc'', ''@types/swagger-ui-express'']
          @ pushIf (shouldIncludeFeature ''auth'' options)
              [''@types/jsonwebtoken'', ''@types/bcryptjs'']
          @ pushIf (shouldIncludeFeature ''helmet'' options) [''@types/helmet'']
          @ pushIf (shouldIncludeFeature ''validation'' options) [''@types/joi''])
     @ pushIf (shouldIncludeFeature ''test'' options)
         ([''jest''] @ pushIf (isTypescript options) [''@types/jest'', ''ts-jest''])"

section \<open>Strings, errors and the world outside the program\<close>

text \<open>\<^verbatim>\<open>xs.join(sep)\<close>.\<close>

fun join :: "string \<Rightarrow> string list \<Rightarrow> string" where
  "join sep [] = []"
| "join sep [x] = x"
| "join sep (x # y # ys) = x @ sep @ join sep (y # ys)"

text \<open>\<^verbatim>\<open>s.includes(sub)\<close>: \<open>sub\<close> occurs in \<open>s\<close> as a contiguous block.\<close>

definition startsWith :: "string \<Rightarrow> string \<Rightarrow> bool" where
  "startsWith s sub = (take (length sub) s = sub)"

fun includesStr :: "string \<Rightarrow> string \<Rightarrow> bool" where
  "includesStr [] sub = (sub = [])"
| "includesStr (c # cs) sub = (startsWith (c # cs) sub \<or> includesStr cs sub)"

text \<open>\<^verbatim>\<open>s.toLowerCase()\<close> on ASCII text: the 26 capital letters are mapped, all else is kept.\<close>

definition lowerChar :: "char \<Rightarrow> char" where
  "lowerChar c =
     (case map_of (zip ''ABCDEFGHIJKLMNOPQRSTUVWXYZ'' ''abcdefghijklmnopqrstuvwxyz'') c of
        None \<Rightarrow> c
      | Some l \<Rightarrow> l)"

definition toLowerCase :: "string \<Rightarrow> string" where
  "toLowerCase s = map lowerChar s"

text \<open>
  A thrown \<^verbatim>\<open>Error\<close>: its message and, for errors of the operating system, its
  \<^verbatim>\<open>code\<close>.
\<close>

record JsError =
  message :: string
  code :: "string option"

text \<open>
  The result of the package \<^verbatim>\<open>validate-npm-package-name\<close>, which is imported and not
  part of this program: the two verdicts and the optional lists of errors and warnings.
\<close>

record NpmValidation =
  validForNewPackages :: bool
  validForOldPackages :: bool
  npm_errors :: "string list option"
  npm_warnings :: "string list option"

text \<open>
  \<^verbatim>\<open>InstallResult\<close> of utils/installer.ts (\<^verbatim>\<open>output\<close>, a keyword of Isabelle, is
  \<open>outputText\<close>).
\<close>

record InstallResult =
  success :: bool
  error :: "string option"
  outputText :: "string option"

text \<open>
  \<^verbatim>\<open>ExgenConfig\<close>, with the two properties that the functions below read
  (\<^verbatim>\<open>packageManager\<close> is \<open>configPackageManager\<close> here).
\<close>

record ExgenConfig =
  defaults :: "ProjectOptions option"
  configPackageManager :: "string option"

text \<open>
  Everything the program asks of its surroundings is a field of \<open>World\<close>: the imported
  name validator, the file system, the working directory, the configuration search of
  cosmiconfig, child processes, the project generator and git. A call that can throw
  returns \<open>Inl\<close> of the error (or \<open>Some\<close> of it when it returns nothing).
\<close>

record World =
  validateNpmPackageName :: "string \<Rightarrow> NpmValidation"
  existsSync :: "string \<Rightarrow> bool"
  statSyncIsDirectory :: "string \<Rightarrow> JsError + bool"
  readdirSync :: "string \<Rightarrow> JsError + string list"
  accessSyncWritable :: "string \<Rightarrow> bool"
  dirname :: "string \<Rightarrow> string"
  pathJoin :: "string \<Rightarrow> string \<Rightarrow> string"
  pathResolve :: "string \<Rightarrow> string \<Rightarrow> string"
  cwd :: string
  explorerSearch :: "string \<Rightarrow> JsError + ExgenConfig option"
  versionCommandWorks :: "string \<Rightarrow> bool"
  ensureDir :: "string \<Rightarrow> JsError option"
  generateProject :: "ResolvedOptions \<Rightarrow> JsError option"
  executeCommand :: "string \<Rightarrow> string list \<Rightarrow> string \<Rightarrow> InstallResult"
  envVERBOSE :: bool
  gitDirExists :: "string \<Rightarrow> bool"
  gitInit :: "string \<Rightarrow> JsError option"
  writeGitignore :: "string \<Rightarrow> JsError option"
  gitAdd :: "string \<Rightarrow> JsError option"
  gitNothingStaged :: "string \<Rightarrow> bool"
  gitCommit :: "string \<Rightarrow> JsError option"
  gitConfigGlobal :: "string \<Rightarrow> JsError + string"

text \<open>What the logger and the top-level handlers print, in order.\<close>

datatype LogEntry = Info string | Warn string | Err string | Success string

section \<open>Validation (utils/validation.ts, second part of src/src/utils/git.ts)\<close>

definition newResult :: ValidationResult where
  "newResult = \<lparr> valid = True, errors = [], warnings = [] \<rparr>"

definition fail :: "string list \<Rightarrow> ValidationResult \<Rightarrow> ValidationResult" where
  "fail es result = result \<lparr> valid := False, errors := errors result @ es \<rparr>"

definition warn :: "string list \<Rightarrow> ValidationResult \<Rightarrow> ValidationResult" where
  "warn ws result = result \<lparr> warnings := warnings result @ ws \<rparr>"

definition optList :: "'a list option \<Rightarrow> 'a list" where
  "optList xs = (case xs of None \<Rightarrow> [] | Some ys \<Rightarrow> ys)"

definition validateProjectName :: "World \<Rightarrow> string \<Rightarrow> ValidationResult" where
  "validateProjectName w name =
     (let result = newResult
      in if name = [] then fail [''Project name is required''] result
         else
           let npmValidation = validateNpmPackageName w name;
               result =
                 (if \<not> validForNewPackages npmValidation
                  then fail (''Project name must be a valid npm package name''
                             # optList (npm_errors npmValidation)) result
                  else result);
               result = warn (optList (npm_warnings npmValidation)) result;
               result =
                 (if length name > 214
                  then fail [''Project name must be less than 214 characters''] result
                  else result);
               result =
                 (if name \<noteq> toLowerCase name
                  then warn [''Project name should be lowercase''] result
                  else result)
           in result)"

text \<open>
  The outer \<^verbatim>\<open>try\<close> of \<open>validateProjectPath\<close> catches what \<^verbatim>\<open>statSync\<close> and
  \<^verbatim>\<open>readdirSync\<close> throw; the inner one what \<^verbatim>\<open>accessSync(parentDir, W_OK)\<close> throws.
\<close>

definition cannotAccess :: "JsError \<Rightarrow> ValidationResult \<Rightarrow> ValidationResult" where
  "cannotAccess e result = fail [''Cannot access project path: '' @ message e] result"

definition checkParentWritable :: "World \<Rightarrow> string \<Rightarrow> ValidationResult \<Rightarrow> ValidationResult" where
  "checkParentWritable w path result =
     (let parentDir = dirname w path
      in if accessSyncWritable w parentDir then result
         else fail [''Parent directory is not writable''] result)"

definition validateProjectPath :: "World \<Rightarrow> string \<Rightarrow> ValidationResult" where
  "validateProjectPath w path =
     (let result = newResult
      in if existsSync w path
         then (case statSyncIsDirectory w path of
                 Inl e \<Rightarrow> cannotAccess e result
               | Inr isDirectory \<Rightarrow>
                   if \<not> isDirectory
                   then fail [''A file with this name already exists''] result
                   else (case readdirSync w path of
                           Inl e \<Rightarrow> cannotAccess e result
                         | Inr files \<Rightarrow>
                             checkParentWritable w path
                               (if length files > 0
                                then warn [''Directory is not empty. Files may be overwritten'']
                                       result
                                else result)))
         else checkParentWritable w path result)"

definition validateOptions :: "'a ProjectOptions_scheme \<Rightarrow> ValidationResult" where
  "validateOptions options =
     (let result = newResult;
          result =
            (if truthyStr (view options) \<and>
                interpolate (view options) \<notin> set SUPPORTED_VIEW_ENGINES
             then fail [''Unsupported view engine: '' @ interpolate (view options)
                        @ ''. Supported engines: '' @ join '', '' SUPPORTED_VIEW_ENGINES]
                    result
             else result);
          result =
            (if truthyStr (css options) \<and>
                interpolate (css options) \<notin> set SUPPORTED_CSS_ENGINES
             then fail [''Unsupported CSS engine: '' @ interpolate (css options)
                        @ ''. Supported engines: '' @ join '', '' SUPPORTED_CSS_ENGINES]
                    result
             else result);
          result =
            (if truthy (typescript options) \<and> truthy (javascript options)
             then warn [''Both TypeScript and JavaScript flags specified. TypeScript will be used'']
                    result
             else result);
          result =
            (if truthy (mongodb options) \<and> truthy (postgres options)
             then warn [''Both MongoDB and PostgreSQL selected. Both will be included'']
                    result
             else result);
          result =
            (if truthy (noView options) \<and> truthyStr (view options)
             then fail [''Cannot specify both --no-view and --view''] result
             else result);
          presets = [light options, all_preset options, prod_preset options,
                     min_preset options, api options, fullstack options,
                     microservice options, startup options];
          activePresets = filter truthy presets;
          result =
            (if length activePresets > 1
             then warn [''Multiple presets specified. Last one will take precedence'']
                    result
             else result)
      in result)"

text \<open>
  \<open>sanitizeProjectName\<close>: lower case, every run of white space becomes one hyphen,
  characters outside \<^verbatim>\<open>[a-z0-9-]\<close> are dropped, runs of hyphens are collapsed, and a
  hyphen at the very start and at the very end is removed.
\<close>

definition isSpace :: "char \<Rightarrow> bool" where
  "isSpace c = (c \<in> set [CHR '' '', CHR 0x09, CHR 0x0A, CHR 0x0B, CHR 0x0C, CHR 0x0D])"

function replaceRuns :: "(char \<Rightarrow> bool) \<Rightarrow> char \<Rightarrow> string \<Rightarrow> string" where
  "replaceRuns p r [] = []"
| "replaceRuns p r (c # cs) =
     (if p c then r # replaceRuns p r (dropWhile p cs) else c # replaceRuns p r cs)"
  by pat_completeness auto
termination
  by (relation "measure (\<lambda>(p, r, s). length s)")
     (auto simp: length_dropWhile_le less_Suc_eq_le)

definition stripHyphens :: "string \<Rightarrow> string" where
  "stripHyphens s =
     (let s1 = (case s of [] \<Rightarrow> [] | c # cs \<Rightarrow> if c = CHR ''-'' then cs else c # cs)
      in if s1 \<noteq> [] \<and> last s1 = CHR ''-'' then butlast s1 else s1)"

definition sanitizeProjectName :: "string \<Rightarrow> string" where
  "sanitizeProjectName name =
     stripHyphens
       (replaceRuns (\<lambda>c. c = CHR ''-'') CHR ''-''
          (filter (\<lambda>c. c \<in> set ''abcdefghijklmnopqrstuvwxyz0123456789-'')
             (replaceRuns isSpace CHR ''-'' (toLowerCase name))))"

section \<open>Configuration (src/src/utils/config.ts)\<close>

text \<open>
  \<open>loadConfig\<close> returns the configuration that the search finds, and \<^verbatim>\<open>null\<close> when
  there is none or when the search throws. Its own diagnostic lines are not recorded.
\<close>

definition loadConfig :: "World \<Rightarrow> string \<Rightarrow> ExgenConfig option" where
  "loadConfig w searchFrom =
     (case explorerSearch w searchFrom of Inl e \<Rightarrow> None | Inr found \<Rightarrow> found)"

definition mergeWithConfig :: "World \<Rightarrow> ProjectOptions \<Rightarrow> string \<Rightarrow> ProjectOptions" where
  "mergeWithConfig w options path =
     (case loadConfig w path of
        None \<Rightarrow> options
      | Some config \<Rightarrow>
          (case defaults config of
             None \<Rightarrow> options
           | Some d \<Rightarrow> spread d options))"

definition detectPackageManager :: "World \<Rightarrow> string \<Rightarrow> string" where
  "detectPackageManager w path =
     (if existsSync w (pathJoin w path ''pnpm-lock.yaml'') then ''pnpm''
      else if existsSync w (pathJoin w path ''yarn.lock'') then ''yarn''
      else
        let fromConfig =
              (case loadConfig w path of
                 None \<Rightarrow> None
               | Some config \<Rightarrow> configPackageManager config)
        in if truthyStr fromConfig then interpolate fromConfig
           else if versionCommandWorks w ''yarn --version'' then ''yarn''
           else if versionCommandWorks w ''pnpm --version'' then ''pnpm''
           else ''npm'')"

text \<open>\<open>resolveOptions\<close> of utils/options.ts, which needs the package manager.\<close>

definition resolveOptions :: "World \<Rightarrow> string \<Rightarrow> string \<Rightarrow> ProjectOptions \<Rightarrow> ResolvedOptions" where
  "resolveOptions w name path options =
     (let resolved = options;
          resolved = applyPresets resolved;
          isTs = resolveTypeScript resolved;
          feats = determineFeatures resolved;
          pm = detectPackageManager w path
      in ProjectOptions.extend resolved
           (ResolvedOptions.fields name path pm isTs feats))"

section \<open>Dependency installation (src/src/utils/installer.ts)\<close>

definition newError :: "string \<Rightarrow> JsError" where
  "newError msg = \<lparr> message = msg, code = None \<rparr>"

text \<open>\<^verbatim>\<open>"" + error\<close> for an \<^verbatim>\<open>Error\<close> object.\<close>

definition errorToString :: "JsError \<Rightarrow> string" where
  "errorToString e = (if message e = [] then ''Error'' else ''Error: '' @ message e)"

definition getInstallCommand :: "string \<Rightarrow> bool \<Rightarrow> string \<times> string list" where
  "getInstallCommand pm isDev =
     (if pm = ''yarn'' then (''yarn'', if isDev then [''add'', ''--dev''] else [''add''])
      else if pm = ''pnpm''
        then (''pnpm'', if isDev then [''add'', ''--save-dev''] else [''add''])
      else if pm = ''bun'' then (''bun'', if isDev then [''add'', ''--dev''] else [''add''])
      else (''npm'', if isDev then [''install'', ''--save-dev''] else [''install'', ''--save'']))"

text \<open>
  \<open>installPackages\<close> runs the package manager in the project directory and throws when
  the command did not succeed. Spinner texts are not recorded, lines of the logger are.
\<close>

definition installPackages ::
  "World \<Rightarrow> string list \<Rightarrow> bool \<Rightarrow> 'a ResolvedOptions_scheme \<Rightarrow> LogEntry list \<times> (JsError + InstallResult)" where
  "installPackages w packages isDev options =
     (let installCommand = getInstallCommand (packageManager options) isDev;
          args = snd installCommand @ packages;
          result = executeCommand w (fst installCommand) args (projectPath options)
      in if success result
         then (pushIf (envVERBOSE w) [Info (''Installed packages: '' @ join '', '' packages)],
               Inr result)
         else ([], Inl (newError (if truthyStr (error result) then interpolate (error result)
                                  else ''Installation failed''))))"

text \<open>
  \<open>installDependencies\<close> installs the runtime list, then the development list, each
  only when it is not empty (\<open>installStep\<close>). Its \<^verbatim>\<open>catch\<close> logs what
  \<open>installPackages\<close> throws and throws it again: the result is \<open>Some\<close> of that error, or
  \<open>None\<close> when both installations succeeded.
\<close>

definition installFailed :: "LogEntry list \<Rightarrow> JsError \<Rightarrow> LogEntry list \<times> JsError option" where
  "installFailed lg e =
     (lg @ [Err (''Failed to install dependencies: '' @ errorToString e)], Some e)"

definition installStep ::
  "World \<Rightarrow> string list \<Rightarrow> bool \<Rightarrow> 'a ResolvedOptions_scheme \<Rightarrow> LogEntry list \<times> JsError option" where
  "installStep w packages isDev options =
     (if length packages > 0
      then (case installPackages w packages isDev options of
              (lg, Inl e) \<Rightarrow> (lg, Some e)
            | (lg, Inr result) \<Rightarrow> (lg, None))
      else ([], None))"

definition installDependencies :: "World \<Rightarrow> 'a ResolvedOptions_scheme \<Rightarrow> LogEntry list \<times> JsError option" where
  "installDependencies w options =
     (let dependencies = getRequiredDependencies options;
          devDependencies = getRequiredDevDependencies options
      in case installStep w dependencies False options of
           (lg1, Some e) \<Rightarrow> installFailed lg1 e
         | (lg1, None) \<Rightarrow>
             (case installStep w devDependencies True options of
                (lg2, Some e) \<Rightarrow> installFailed (lg1 @ lg2) e
              | (lg2, None) \<Rightarrow>
                  (lg1 @ lg2 @ [Info ''All dependencies installed successfully''], None)))"

section \<open>Git initialisation (src/src/utils/git.ts)\<close>

definition isGitAvailable :: "World \<Rightarrow> bool" where
  "isGitAvailable w = versionCommandWorks w ''git --version''"

definition isGitRepository :: "World \<Rightarrow> string \<Rightarrow> bool" where
  "isGitRepository w path = gitDirExists w (pathJoin w path ''.git'')"

text \<open>
  A text between single quotes. The two headings of \<open>suggestGitConfig\<close> start with a
  pictogram in the source, which is left out here.
\<close>

definition quoted :: "string \<Rightarrow> string" where
  "quoted s = CHR 0x27 # s @ [CHR 0x27]"

definition userConfigHelp :: "LogEntry list" where
  "userConfigHelp =
     [Info ''Git user configuration needed - skipping initial commit'',
      Info (''Configure Git with: git config --global user.name '' @ quoted ''Your Name''),
      Info (''Configure Git with: git config --global user.email ''
            @ quoted ''your.email@example.com'')]"

text \<open>
  \<open>createInitialCommit\<close>: an error of \<^verbatim>\<open>git add\<close> or \<^verbatim>\<open>git commit\<close> that mentions the
  user's name or e-mail is explained and dropped; any other error is thrown again.
\<close>

definition commitFailed :: "JsError \<Rightarrow> LogEntry list \<times> JsError option" where
  "commitFailed e =
     (if includesStr (message e) ''user.email'' \<or> includesStr (message e) ''user.name''
      then (userConfigHelp, None)
      else ([], Some e))"

definition createInitialCommit :: "World \<Rightarrow> string \<Rightarrow> LogEntry list \<times> JsError option" where
  "createInitialCommit w path =
     (case gitAdd w path of
        Some e \<Rightarrow> commitFailed e
      | None \<Rightarrow>
          if gitNothingStaged w path then ([], None)
          else (case gitCommit w path of
                  Some e \<Rightarrow> commitFailed e
                | None \<Rightarrow> ([], None)))"

definition suggestGitConfig :: "World \<Rightarrow> string \<Rightarrow> LogEntry list" where
  "suggestGitConfig w path =
     (let failed = [Info (CHR 0x0A # ''Consider setting up Git configuration:''),
                    Info (''  git config --global user.name '' @ quoted ''Your Name''),
                    Info (''  git config --global user.email '' @ quoted ''your.email@example.com'')]
      in case gitConfigGlobal w ''user.name'' of
           Inl e \<Rightarrow> failed
         | Inr userName \<Rightarrow>
             (case gitConfigGlobal w ''user.email'' of
                Inl e \<Rightarrow> failed
              | Inr userEmail \<Rightarrow>
                  if userName = [] \<or> userEmail = []
                  then [Info (CHR 0x0A # ''Git configuration recommendations:'')]
                       @ pushIf (userName = [])
                           [Info (''  Set your name: git config --global user.name ''
                                 @ quoted ''Your Name'')]
                       @ pushIf (userEmail = [])
                           [Info (''  Set your email: git config --global user.email ''
                                 @ quoted ''your.email@example.com'')]
                  else []))"

text \<open>
  The body of the \<^verbatim>\<open>try\<close> of \<open>initializeGit\<close>: what it logs, and the error that leaves it,
  if any.
\<close>

definition initializeGitTry :: "World \<Rightarrow> string \<Rightarrow> LogEntry list \<times> JsError option" where
  "initializeGitTry w path =
     (if \<not> isGitAvailable w
      then ([Warn ''Please install Git to enable version control features''], None)
      else if isGitRepository w path then ([], None)
      else (case gitInit w path of
              Some e \<Rightarrow> ([], Some e)
            | None \<Rightarrow>
                (case writeGitignore w path of
                   Some e \<Rightarrow> ([], Some e)
                 | None \<Rightarrow>
                     (case createInitialCommit w path of
                        (lg, Some e) \<Rightarrow> (lg, Some e)
                      | (lg, None) \<Rightarrow> (lg @ suggestGitConfig w path, None)))))"

text \<open>
  The \<^verbatim>\<open>catch\<close> of \<open>initializeGit\<close> logs the error and returns: the function has no
  way to throw, so its result is the log alone.
\<close>

definition initializeGit :: "World \<Rightarrow> string \<Rightarrow> LogEntry list" where
  "initializeGit w path =
     (case initializeGitTry w path of
        (lg, None) \<Rightarrow> lg
      | (lg, Some e) \<Rightarrow>
          lg
          @ (if includesStr (message e) ''not found'' \<or> code e = Some ''ENOENT''
             then [Warn ''Git is not installed or not in PATH'',
                   Info ''Please install Git: https://git-scm.com/downloads'']
             else [Err (''Git initialization error: '' @ message e)])
          @ [Info ''Continuing without Git initialization...''])"

section \<open>The create command (commands/create.ts, second part of src/src/commands/init.ts)\<close>

text \<open>
  A run of \<open>createProject\<close> ends with an exit code and the lines printed by the logger,
  by \<open>logStep\<close>, \<open>logSuccess\<close> and \<open>logError\<close>. The header, the summary table, the
  spinner and the closing hints are display only and are not recorded. The function
  returns normally when nothing is thrown (exit code 0); its \<^verbatim>\<open>catch\<close> prints the error
  and calls \<^verbatim>\<open>process.exit(1)\<close>.
\<close>

record Run =
  exitCode :: nat
  printed :: "LogEntry list"

definition logStep :: "string \<Rightarrow> string \<Rightarrow> LogEntry" where
  "logStep step msg = Info (''['' @ step @ ''/6] '' @ msg)"

definition newline :: string where
  "newline = [CHR 0x0A]"

definition showDryRun :: "ResolvedOptions \<Rightarrow> LogEntry list" where
  "showDryRun options =
     (let structure = [''src/'', ''src/api/'', ''src/config/'', ''src/utils/'', ''bin/'',
                       ''public/'', ''package.json'', ''README.md'']
                      @ pushIf (isTypescript options) [''tsconfig.json'']
                      @ pushIf (truthy (docker options)) [''Dockerfile'', ''docker-compose.yml'']
                      @ pushIf (truthy (test options)) [''tests/'', ''jest.config.js'']
      in [Info ''DRY RUN - Project would be created with the following configuration:'',
          Info (newline @ ''Files and directories that would be created:'')]
         @ map (\<lambda>item. Info (''  '' @ item)) structure)"

text \<open>
  Steps 1 and 2: the three checks, one after the other. A check that is not valid throws
  at once, with its own errors joined into the message; the warnings of a check that is
  valid are printed before the next check runs.
\<close>

definition validateAndResolve ::
  "World \<Rightarrow> string option \<Rightarrow> ProjectOptions \<Rightarrow> LogEntry list \<times> (JsError + ResolvedOptions)" where
  "validateAndResolve w name options =
     (let lg = [logStep ''1'' ''Validating project configuration...'']
      in if \<not> truthyStr name
         then (lg, Inl (newError ''Project name is required. Use: exgen <project-name> [options]''))
         else
           let nameValidation = validateProjectName w (interpolate name)
           in if \<not> valid nameValidation
              then (lg, Inl (newError (''Invalid project name:'' @ newline
                                       @ join newline (errors nameValidation))))
              else
                let lg = lg @ map Warn (warnings nameValidation);
                    sanitizedName = sanitizeProjectName (interpolate name);
                    path = pathResolve w (cwd w) sanitizedName;
                    pathValidation = validateProjectPath w path
                in if \<not> valid pathValidation
                   then (lg, Inl (newError (''Invalid project path:'' @ newline
                                            @ join newline (errors pathValidation))))
                   else
                     let lg = lg @ map Warn (warnings pathValidation)
                              @ [logStep ''2'' ''Resolving project options...''];
                         mergedOptions = mergeWithConfig w options (cwd w);
                         optionsValidation = validateOptions mergedOptions
                     in if \<not> valid optionsValidation
                        then (lg, Inl (newError (''Invalid options:'' @ newline
                                                 @ join newline (errors optionsValidation))))
                        else (lg @ map Warn (warnings optionsValidation),
                              Inr (resolveOptions w sanitizedName path mergedOptions)))"

text \<open>Step 3: the directory and the files; what either throws is thrown again.\<close>

definition materialize :: "World \<Rightarrow> ResolvedOptions \<Rightarrow> JsError option" where
  "materialize w resolvedOptions =
     (case ensureDir w (projectPath resolvedOptions) of
        Some e \<Rightarrow> Some e
      | None \<Rightarrow> generateProject w resolvedOptions)"

text \<open>Steps 3 to 6, for a run that is not a dry run.\<close>

definition buildProject ::
  "World \<Rightarrow> ProjectOptions \<Rightarrow> ResolvedOptions \<Rightarrow> LogEntry list \<times> JsError option" where
  "buildProject w options resolvedOptions =
     (let lg = [logStep ''3'' ''Creating project structure...'']
      in case materialize w resolvedOptions of
           Some e \<Rightarrow> (lg, Some e)
         | None \<Rightarrow>
             (case (if \<not> truthy (skipInstall options)
                    then (case installDependencies w resolvedOptions of
                            (ilg, r) \<Rightarrow> (logStep ''4'' ''Installing dependencies...'' # ilg, r))
                    else ([Info ''Skipping dependency installation''], None)) of
                (ilg, Some e) \<Rightarrow> (lg @ ilg, Some e)
              | (ilg, None) \<Rightarrow>
                  (lg @ ilg
                   @ (if \<not> truthy (skipGit options) \<and> git options \<noteq> Some False
                      then logStep ''5'' ''Initializing Git repository...''
                           # initializeGit w (projectPath resolvedOptions)
                      else [Info ''Skipping Git initialization''])
                   @ [logStep ''6'' ''Finalizing project setup...'',
                      Success ''Project created successfully!''],
                   None)))"

definition finish :: "LogEntry list \<times> JsError option \<Rightarrow> Run" where
  "finish r =
     (case r of
        (lg, None) \<Rightarrow> \<lparr> exitCode = 0, printed = lg \<rparr>
      | (lg, Some e) \<Rightarrow> \<lparr> exitCode = 1, printed = lg @ [Err (message e)] \<rparr>)"

definition createProject :: "World \<Rightarrow> string option \<Rightarrow> ProjectOptions \<Rightarrow> Run" where
  "createProject w name options =
     finish
       (case validateAndResolve w name options of
          (lg, Inl e) \<Rightarrow> (lg, Some e)
        | (lg, Inr resolvedOptions) \<Rightarrow>
            if truthy (dryRun options) then (lg @ showDryRun resolvedOptions, None)
            else (case buildProject w options resolvedOptions of
                    (blg, r) \<Rightarrow> (lg @ blg, r)))"

section \<open>The imported name validator\<close>

text \<open>
  Modelled from the spec: the package \<^verbatim>\<open>validate-npm-package-name\<close>, which
  \<open>validateProjectName\<close> imports, is not under \<^verbatim>\<open>src/\<close>. The spec calls it ``a published
  package-naming grammar (lowercase alphanumerics, limited punctuation, length
  ceiling)''. The rules below are the published rules of that package, for ASCII names:
  an empty name, a leading period or underscore, surrounding white space, the two
  reserved names and a character that is not URL-friendly are errors; a core module
  name, more than 214 characters, a capital letter and one of the characters
  \<^verbatim>\<open>~'!()*\<close> are warnings. A name is valid for new packages when it has neither an error
  nor a warning, and valid for old packages when it has no error. An empty list of
  errors or of warnings is removed from the result.
\<close>

definition coreModules :: "string list" where
  "coreModules = [''assert'', ''async_hooks'', ''buffer'', ''child_process'', ''cluster'',
     ''console'', ''constants'', ''crypto'', ''dgram'', ''dns'', ''domain'', ''events'',
     ''fs'', ''http'', ''http2'', ''https'', ''inspector'', ''module'', ''net'', ''os'',
     ''path'', ''perf_hooks'', ''process'', ''punycode'', ''querystring'', ''readline'',
     ''repl'', ''stream'', ''string_decoder'', ''sys'', ''timers'', ''tls'',
     ''trace_events'', ''tty'', ''url'', ''util'', ''v8'', ''vm'', ''worker_threads'',
     ''zlib'']"

text \<open>\<^verbatim>\<open>encodeURIComponent(s) === s\<close>: every character is one that the encoding keeps.\<close>

definition urlFriendly :: "string \<Rightarrow> bool" where
  "urlFriendly s =
     list_all (\<lambda>c. c \<in> set (''ABCDEFGHIJKLMNOPQRSTUVWXYZabcdefghijklmnopqrstuvwxyz''
                            @ ''0123456789-_.!~*()'' @ [CHR 0x27])) s"

definition trim :: "string \<Rightarrow> string" where
  "trim s = rev (dropWhile isSpace (rev (dropWhile isSpace s)))"

text \<open>\<^verbatim>\<open>name.split('/').slice(-1)[0]\<close>.\<close>

definition lastSegment :: "string \<Rightarrow> string" where
  "lastSegment s = rev (takeWhile (\<lambda>c. c \<noteq> CHR ''/'') (rev s))"

text \<open>
  The scoped form \<^verbatim>\<open>@user/package\<close>: both parts not empty and without a further slash.
\<close>

definition scopedName :: "string \<Rightarrow> (string \<times> string) option" where
  "scopedName s =
     (case s of
        [] \<Rightarrow> None
      | c # rest \<Rightarrow>
          if c \<noteq> CHR ''@'' then None
          else
            let user = takeWhile (\<lambda>c. c \<noteq> CHR ''/'') rest;
                pkg = drop 1 (dropWhile (\<lambda>c. c \<noteq> CHR ''/'') rest)
            in if user \<noteq> [] \<and> pkg \<noteq> [] \<and> CHR ''/'' \<notin> set pkg then Some (user, pkg)
               else None)"

definition npmDone :: "string list \<Rightarrow> string list \<Rightarrow> NpmValidation" where
  "npmDone ws es =
     \<lparr> validForNewPackages = (es = [] \<and> ws = []),
       validForOldPackages = (es = []),
       npm_errors = (if es = [] then None else Some es),
       npm_warnings = (if ws = [] then None else Some ws) \<rparr>"

definition npmPackageRules :: "string \<Rightarrow> NpmValidation" where
  "npmPackageRules name =
     (let es = pushIf (name = []) [''name length must be greater than zero'']
               @ pushIf (startsWith name ''.'') [''name cannot start with a period'']
               @ pushIf (startsWith name ''_'') [''name cannot start with an underscore'']
               @ pushIf (trim name \<noteq> name)
                   [''name cannot contain leading or trailing spaces'']
               @ pushIf (toLowerCase name = ''node_modules'')
                   [''node_modules is a blacklisted name'']
               @ pushIf (toLowerCase name = ''favicon.ico'')
                   [''favicon.ico is a blacklisted name''];
          ws = pushIf (toLowerCase name \<in> set coreModules)
                 [toLowerCase name @ '' is a core module name'']
               @ pushIf (length name > 214)
                   [''name can no longer contain more than 214 characters'']
               @ pushIf (toLowerCase name \<noteq> name)
                   [''name can no longer contain capital letters'']
               @ pushIf (list_ex (\<lambda>c. c \<in> set (''~!()*'' @ [CHR 0x27])) (lastSegment name))
                   [''name can no longer contain special characters ('' @ [CHR 0x22]
                    @ ''~'' @ [CHR 0x27] @ ''!()*'' @ [CHR 0x22] @ '')''];
          urlError = ''name can only contain URL-friendly characters''
      in if urlFriendly name then npmDone ws es
         else (case scopedName name of
                 None \<Rightarrow> npmDone ws (es @ [urlError])
               | Some (user, pkg) \<Rightarrow>
                   if urlFriendly user \<and> urlFriendly pkg then npmDone ws es
                   else npmDone ws (es @ [urlError])))"

section \<open>Concrete options and worlds\<close>

text \<open>The option records that the scenarios below start from.\<close>

definition apiFlags :: ProjectOptions where
  "apiFlags = emptyOptions \<lparr> api := Some True \<rparr>"

definition fullstackFlags :: ProjectOptions where
  "fullstackFlags = emptyOptions \<lparr> fullstack := Some True \<rparr>"

definition allFlags :: ProjectOptions where
  "allFlags = emptyOptions \<lparr> all_preset := Some True \<rparr>"

definition jsFlags :: ProjectOptions where
  "jsFlags = emptyOptions \<lparr> javascript := Some True \<rparr>"

definition prodWithoutTs :: ProjectOptions where
  "prodWithoutTs = emptyOptions \<lparr> prod_preset := Some True, typescript := Some False \<rparr>"

definition viewConflictFlags :: ProjectOptions where
  "viewConflictFlags = emptyOptions \<lparr> noView := Some True, view := Some ''ejs'' \<rparr>"


text \<open>The presets that \<open>resolveTypeScript\<close> tests.\<close>

definition typescriptPreset :: "'a ProjectOptions_scheme \<Rightarrow> bool" where
  "typescriptPreset options =
     (truthy (api options) \<or> truthy (microservice options) \<or> truthy (startup options) \<or>
      truthy (prod_preset options) \<or> truthy (min_preset options) \<or> truthy (light options))"



text \<open>
  A world in which nothing goes wrong: the working directory is \<^verbatim>\<open>/work\<close>, the target
  does not exist yet, its parent is writable, there is no configuration file, the name
  validator accepts every name, git is installed, yarn and pnpm are not, and every
  command succeeds.
\<close>

definition quietWorld :: World where
  "quietWorld = \<lparr>
     validateNpmPackageName = (\<lambda>name. \<lparr> validForNewPackages = True,
        validForOldPackages = True, npm_errors = None, npm_warnings = None \<rparr>),
     existsSync = (\<lambda>p. False),
     statSyncIsDirectory = (\<lambda>p. Inl (newError ''ENOENT: no such file or directory'')),
     readdirSync = (\<lambda>p. Inl (newError ''ENOENT: no such file or directory'')),
     accessSyncWritable = (\<lambda>p. True),
     dirname = (\<lambda>p. ''/work''),
     pathJoin = (\<lambda>a b. a @ ''/'' @ b),
     pathResolve = (\<lambda>a b. a @ ''/'' @ b),
     cwd = ''/work'',
     explorerSearch = (\<lambda>p. Inr None),
     versionCommandWorks = (\<lambda>c. c = ''git --version''),
     ensureDir = (\<lambda>p. None),
     generateProject = (\<lambda>r. None),
     executeCommand = (\<lambda>c args dir. \<lparr> success = True, error = None, outputText = Some [] \<rparr>),
     envVERBOSE = False,
     gitDirExists = (\<lambda>p. False),
     gitInit = (\<lambda>p. None),
     writeGitignore = (\<lambda>p. None),
     gitAdd = (\<lambda>p. None),
     gitNothingStaged = (\<lambda>p. False),
     gitCommit = (\<lambda>p. None),
     gitConfigGlobal = (\<lambda>k. Inr ''dev'') \<rparr>"

text \<open>
  What \<^verbatim>\<open>validate-npm-package-name\<close> answers for a name with capital letters: no
  error, one warning, and so not valid for new packages.
\<close>

definition npmCapitalLetters :: NpmValidation where
  "npmCapitalLetters = \<lparr> validForNewPackages = False, validForOldPackages = True,
     npm_errors = None, npm_warnings = Some [''name can no longer contain capital letters''] \<rparr>"

definition capitalsWorld :: World where
  "capitalsWorld = quietWorld \<lparr> validateNpmPackageName := (\<lambda>name. npmCapitalLetters) \<rparr>"

text \<open>The quiet world with the name validator of the package.\<close>

definition packageWorld :: World where
  "packageWorld = quietWorld \<lparr> validateNpmPackageName := npmPackageRules \<rparr>"

text \<open>The target \<^verbatim>\<open>/work/my-app\<close> as an empty directory, a directory with one file, a file.\<close>

definition emptyDirWorld :: World where
  "emptyDirWorld = quietWorld \<lparr> existsSync := (\<lambda>p. p = ''/work/my-app''),
     statSyncIsDirectory := (\<lambda>p. Inr True), readdirSync := (\<lambda>p. Inr []) \<rparr>"

definition usedDirWorld :: World where
  "usedDirWorld = quietWorld \<lparr> existsSync := (\<lambda>p. p = ''/work/my-app''),
     statSyncIsDirectory := (\<lambda>p. Inr True), readdirSync := (\<lambda>p. Inr [''README.md'']) \<rparr>"

definition plainFileWorld :: World where
  "plainFileWorld = quietWorld \<lparr> existsSync := (\<lambda>p. p = ''/work/my-app''),
     statSyncIsDirectory := (\<lambda>p. Inr False) \<rparr>"

definition readOnlyParentWorld :: World where
  "readOnlyParentWorld = quietWorld \<lparr> accessSyncWritable := (\<lambda>p. False) \<rparr>"

text \<open>A package manager that fails, and a \<^verbatim>\<open>git init\<close> that throws.\<close>

definition installFailWorld :: World where
  "installFailWorld = quietWorld \<lparr> executeCommand := (\<lambda>c args dir.
     \<lparr> success = False, error = Some ''npm ERR! network'', outputText = None \<rparr>) \<rparr>"

definition gitFailWorld :: World where
  "gitFailWorld = quietWorld \<lparr> gitInit := (\<lambda>p. Some (newError ''fatal: cannot mkdir .git'')) \<rparr>"

section \<open>Facts about presets and spreading\<close>

lemma getPresetOptions_light:
  "getPresetOptions ''light'' = emptyOptions \<lparr> light := Some True, typescript := Some True \<rparr>"
  by (simp add: getPresetOptions_def PRESET_DEFINITIONS_def)

lemma getPresetOptions_api:
  "getPresetOptions ''api'' = emptyOptions \<lparr> api := Some True, typescript := Some True,
     cors := Some True, helmet := Some True, validation := Some True, test := Some True,
     noView := Some True \<rparr>"
  by (simp add: getPresetOptions_def PRESET_DEFINITIONS_def)

lemma getPresetOptions_fullstack:
  "getPresetOptions ''fullstack'' = emptyOptions \<lparr> fullstack := Some True,
     view := Some ''ejs'', css := Some ''sass'', auth := Some True, mongodb := Some True,
     test := Some True \<rparr>"
  by (simp add: getPresetOptions_def PRESET_DEFINITIONS_def)

lemma getPresetOptions_microservice:
  "getPresetOptions ''microservice'' = emptyOptions \<lparr> microservice := Some True,
     typescript := Some True, docker := Some True, redis := Some True, test := Some True,
     elk := Some True, noView := Some True, cors := Some True, helmet := Some True \<rparr>"
  by (simp add: getPresetOptions_def PRESET_DEFINITIONS_def)

lemma getPresetOptions_startup:
  "getPresetOptions ''startup'' = emptyOptions \<lparr> startup := Some True,
     typescript := Some True, mongodb := Some True, auth := Some True,
     swagger := Some True, docker := Some True, test := Some True, cors := Some True,
     helmet := Some True, rateLimit := Some True, validation := Some True \<rparr>"
  by (simp add: getPresetOptions_def PRESET_DEFINITIONS_def)

lemma getPresetOptions_min:
  "getPresetOptions ''min'' = emptyOptions \<lparr> min_preset := Some True,
     typescript := Some True, test := Some True, cors := Some True, helmet := Some True \<rparr>"
  by (simp add: getPresetOptions_def PRESET_DEFINITIONS_def)

lemma getPresetOptions_prod:
  "getPresetOptions ''prod'' = emptyOptions \<lparr> prod_preset := Some True,
     typescript := Some True, swagger := Some True, docker := Some True,
     test := Some True, elk := Some True, cors := Some True, helmet := Some True,
     rateLimit := Some True \<rparr>"
  by (simp add: getPresetOptions_def PRESET_DEFINITIONS_def)

lemmas getPresetOptions_eval =
  getPresetOptions_light getPresetOptions_api getPresetOptions_fullstack
  getPresetOptions_microservice getPresetOptions_startup getPresetOptions_min
  getPresetOptions_prod

lemmas applyPresets_unfold =
  applyPresets_def Let_def applyIf_def getPresetOptions_eval getAllPresetOptions_def
  emptyOptions_def

lemma over_simps: "over a None = a" "over a (Some v) = Some v"
  by (simp_all add: over_def)

lemma over_idem: "over (over a b) b = over a b"
  by (cases b) (simp_all add: over_def)

lemma spread_sel:
  "typescript (spread a b) = over (typescript a) (typescript b)"
  "javascript (spread a b) = over (javascript a) (javascript b)"
  "light (spread a b) = over (light a) (light b)"
  "api (spread a b) = over (api a) (api b)"
  "fullstack (spread a b) = over (fullstack a) (fullstack b)"
  "microservice (spread a b) = over (microservice a) (microservice b)"
  "startup (spread a b) = over (startup a) (startup b)"
  "min_preset (spread a b) = over (min_preset a) (min_preset b)"
  "prod_preset (spread a b) = over (prod_preset a) (prod_preset b)"
  "all_preset (spread a b) = over (all_preset a) (all_preset b)"
  "view (spread a b) = over (view a) (view b)"
  by (simp_all add: spread_def)

lemma spread_idem: "spread (spread a b) b = spread a b"
  by (simp add: spread_def over_idem)

text \<open>Spreading the original options over the result once more changes nothing.\<close>

lemma applyPresets_explicit: "spread (applyPresets options) options = applyPresets options"
  by (simp add: applyPresets_def Let_def spread_idem)

text \<open>
  The \<open>typescript\<close> property after the presets: the explicit value when there is one,
  otherwise \<open>true\<close> when a preset whose bundle sets it is active.
\<close>

lemma applyPresets_typescript:
  "typescript (applyPresets options) =
     over (if truthy (light options) \<or> truthy (api options) \<or>
              truthy (microservice options) \<or> truthy (startup options) \<or>
              truthy (min_preset options) \<or> truthy (prod_preset options) \<or>
              truthy (all_preset options)
           then Some True else None) (typescript options)"
  by (cases "typescript options") (simp_all add: applyPresets_unfold spread_sel over_simps)

lemma applyPresets_view:
  "view (applyPresets options) =
     over (if truthy (fullstack options) then Some ''ejs'' else None) (view options)"
  by (cases "view options") (simp_all add: applyPresets_unfold spread_sel over_simps)

lemma applyPresets_javascript: "javascript (applyPresets options) = javascript options"
  by (cases "javascript options") (simp_all add: applyPresets_unfold spread_sel over_simps)

lemma applyPresets_light: "truthy (light (applyPresets options)) = truthy (light options)"
  by (cases "light options")
     (simp_all add: applyPresets_unfold spread_sel over_simps truthy_def)

lemma applyPresets_api_flag: "truthy (api (applyPresets options)) = truthy (api options)"
  by (cases "api options")
     (simp_all add: applyPresets_unfold spread_sel over_simps truthy_def)

lemma applyPresets_microservice:
  "truthy (microservice (applyPresets options)) = truthy (microservice options)"
  by (cases "microservice options")
     (simp_all add: applyPresets_unfold spread_sel over_simps truthy_def)

lemma applyPresets_startup:
  "truthy (startup (applyPresets options)) = truthy (startup options)"
  by (cases "startup options")
     (simp_all add: applyPresets_unfold spread_sel over_simps truthy_def)

lemma applyPresets_min:
  "truthy (min_preset (applyPresets options)) = truthy (min_preset options)"
  by (cases "min_preset options")
     (simp_all add: applyPresets_unfold spread_sel over_simps truthy_def)

lemma applyPresets_prod:
  "truthy (prod_preset (applyPresets options)) = truthy (prod_preset options)"
  by (cases "prod_preset options")
     (simp_all add: applyPresets_unfold spread_sel over_simps truthy_def)

lemmas applyPresets_flags =
  applyPresets_javascript applyPresets_light applyPresets_api_flag
  applyPresets_microservice applyPresets_startup applyPresets_min applyPresets_prod

lemma resolveOptions_sel:
  "isTypescript (resolveOptions w name path options) = resolveTypeScript (applyPresets options)"
  "features (resolveOptions w name path options) = determineFeatures (applyPresets options)"
  "projectPath (resolveOptions w name path options) = path"
  "ProjectOptions.truncate (resolveOptions w name path options) = applyPresets options"
  "typescript (resolveOptions w name path options) = typescript (applyPresets options)"
  "view (resolveOptions w name path options) = view (applyPresets options)"
  "noView (resolveOptions w name path options) = noView (applyPresets options)"
  by (simp_all add: resolveOptions_def Let_def ProjectOptions.defs ResolvedOptions.defs)

text \<open>The language that \<open>resolveOptions\<close> selects, in terms of the raw options.\<close>

lemma isTypescript_resolved:
  "resolveTypeScript (applyPresets options) =
     (if truthy (javascript options) \<and>
         (typescript options = Some False \<or>
          typescript options = None \<and> \<not> typescriptPreset options \<and>
          \<not> truthy (all_preset options))
      then False
      else (typescript options = Some True \<or> typescriptPreset options \<or>
            truthy (all_preset options) \<and> typescript options = None))"
  unfolding resolveTypeScript_def applyPresets_flags applyPresets_typescript
    typescriptPreset_def
  by (cases "typescript options") (auto simp add: over_simps truthy_def)

lemma applyPresets_apiFlags:
  "applyPresets apiFlags =
     emptyOptions \<lparr> api := Some True, typescript := Some True, cors := Some True,
       helmet := Some True, validation := Some True, test := Some True,
       noView := Some True \<rparr>"
  by (simp add: apiFlags_def applyPresets_unfold truthy_def spread_def over_def)

section \<open>Option resolution: the claims\<close>

text \<open>
  C1, as stated, fails: for \<^verbatim>\<open>{prod: true, typescript: false}\<close> the function
  \<open>resolveOptions\<close> returns \<open>isTypescript = true\<close>, because \<open>resolveTypeScript\<close> tests
  the \<open>prod\<close> flag itself and not only the \<open>typescript\<close> property.
\<close>

theorem prod_without_typescript_is_typescript:
  "isTypescript (resolveOptions quietWorld ''app'' ''/work/app'' prodWithoutTs) = True"
  by (simp add: resolveOptions_sel isTypescript_resolved prodWithoutTs_def emptyOptions_def
      truthy_def typescriptPreset_def)

text \<open>
  C1, amended. Explicit flags take final precedence over preset values in the option
  properties that \<open>resolveOptions\<close> returns: a \<open>typescript\<close> value given in the raw options
  is the \<open>typescript\<close> value of the result, and spreading the raw options over the
  returned properties changes none of them, so every property that the raw options set
  has kept its value. For \<^verbatim>\<open>{prod: true, typescript: false}\<close> the returned \<open>typescript\<close>
  property is \<open>false\<close>; the derived \<open>isTypescript\<close> is \<open>true\<close> all the same, because the
  \<open>prod\<close> preset is active.
\<close>

theorem explicit_flags_win_in_option_properties:
  "(typescript options = Some b \<longrightarrow>
      typescript (resolveOptions w name path options) = Some b) \<and>
   spread (ProjectOptions.truncate (resolveOptions w name path options)) options =
     ProjectOptions.truncate (resolveOptions w name path options) \<and>
   typescript (resolveOptions w name path prodWithoutTs) = Some False \<and>
   isTypescript (resolveOptions w name path prodWithoutTs) = True"
  by (simp add: resolveOptions_sel applyPresets_explicit applyPresets_typescript over_simps
      isTypescript_resolved prodWithoutTs_def emptyOptions_def truthy_def
      typescriptPreset_def)

theorem explicit_flags_win_witness:
  "typescript prodWithoutTs = Some False \<and>
   typescript (resolveOptions quietWorld ''app'' ''/work/app'' prodWithoutTs) = Some False"
  using explicit_flags_win_in_option_properties
    [of prodWithoutTs False quietWorld "''app''" "''/work/app''"]
  by (simp add: prodWithoutTs_def emptyOptions_def)

text \<open>
  C2, as stated, fails: with \<^verbatim>\<open>{all: true}\<close> the \<open>typescript\<close> flag is not explicit and
  none of api, microservice, startup, prod, min, light is active, yet \<open>isTypescript\<close> is
  \<open>true\<close>, because the bundle of the \<open>all\<close> preset sets \<open>typescript\<close>.
\<close>

theorem all_preset_is_typescript:
  "isTypescript (resolveOptions quietWorld ''app'' ''/work/app'' allFlags) = True"
  by (simp add: resolveOptions_sel isTypescript_resolved allFlags_def emptyOptions_def
      truthy_def typescriptPreset_def)

text \<open>
  C2, amended. For every raw options record in which the \<open>javascript\<close> flag is set and
  \<open>typescript\<close> is not \<open>true\<close>, \<open>resolveOptions\<close> returns \<open>isTypescript = false\<close> provided
  that \<open>typescript\<close> is explicitly \<open>false\<close> or that none of the presets api,
  microservice, startup, prod, min, light, all is active. When the \<open>javascript\<close> flag is
  not set, or \<open>typescript\<close> is explicitly \<open>true\<close>, \<open>isTypescript\<close> is \<open>true\<close> exactly when
  \<open>typescript\<close> is explicitly \<open>true\<close>, or one of api, microservice, startup, prod, min,
  light is active, or \<open>all\<close> is active and \<open>typescript\<close> is left unset. With none of these
  the language is JavaScript: \<^verbatim>\<open>{fullstack: true}\<close> gives \<open>isTypescript = false\<close> and the
  view engine \<^verbatim>\<open>ejs\<close>. (Nothing is said here about the \<open>javascript\<close> flag together with
  an active preset and no \<open>typescript\<close> property.)
\<close>

theorem language_resolution_rule:
  "(truthy (javascript options) \<and> typescript options \<noteq> Some True \<and>
      (typescript options = Some False \<or>
       \<not> typescriptPreset options \<and> \<not> truthy (all_preset options))
    \<longrightarrow> isTypescript (resolveOptions w name path options) = False) \<and>
   (\<not> truthy (javascript options) \<or> typescript options = Some True
    \<longrightarrow> isTypescript (resolveOptions w name path options) =
          (typescript options = Some True \<or> typescriptPreset options \<or>
           truthy (all_preset options) \<and> typescript options = None)) \<and>
   isTypescript (resolveOptions w name path fullstackFlags) = False \<and>
   view (resolveOptions w name path fullstackFlags) = Some ''ejs''"
  by (cases "typescript options")
     (auto simp add: resolveOptions_sel isTypescript_resolved applyPresets_view over_simps
        fullstackFlags_def emptyOptions_def truthy_def typescriptPreset_def)

theorem language_resolution_witness:
  "isTypescript (resolveOptions quietWorld ''app'' ''/work/app'' jsFlags) = False \<and>
   isTypescript (resolveOptions quietWorld ''app'' ''/work/app'' allFlags) = True"
  using language_resolution_rule [of jsFlags quietWorld "''app''" "''/work/app''"]
    language_resolution_rule [of allFlags quietWorld "''app''" "''/work/app''"]
  by (simp add: jsFlags_def allFlags_def emptyOptions_def truthy_def typescriptPreset_def)

text \<open>
  C6. With the flags \<^verbatim>\<open>{api: true}\<close> and any project name (\<^verbatim>\<open>"demo-api"\<close> among them),
  \<open>resolveOptions\<close> returns \<open>isTypescript = true\<close> and the feature list TypeScript, CORS,
  Helmet, Joi Validation, Jest Testing, Git. No entry of the list is a view entry
  (none starts with \<^verbatim>\<open>View: \<close>), the option \<open>noView\<close> is set by the preset and the final
  view engine is undefined.
\<close>

theorem api_preset_scenario:
  "isTypescript (resolveOptions w name path apiFlags) = True \<and>
   features (resolveOptions w name path apiFlags) =
     [''TypeScript'', ''CORS'', ''Helmet'', ''Joi Validation'', ''Jest Testing'', ''Git''] \<and>
   filter (\<lambda>f. startsWith f ''View: '') (features (resolveOptions w name path apiFlags)) = [] \<and>
   noView (resolveOptions w name path apiFlags) = Some True \<and>
   getFinalViewEngine (resolveOptions w name path apiFlags) = None"
  by (simp add: resolveOptions_sel applyPresets_apiFlags determineFeatures_def
      resolveTypeScript_def getFinalViewEngine_def pushIf_def startsWith_def
      emptyOptions_def truthy_def truthyStr_def)

section \<open>The validator: the claims\<close>

lemmas result_eval = newResult_def fail_def warn_def Let_def

lemma validateOptions_valid:
  "valid (validateOptions options) =
     (\<not> (truthyStr (view options) \<and>
         interpolate (view options) \<notin> set SUPPORTED_VIEW_ENGINES) \<and>
      \<not> (truthyStr (css options) \<and>
         interpolate (css options) \<notin> set SUPPORTED_CSS_ENGINES) \<and>
      \<not> (truthy (noView options) \<and> truthyStr (view options)))"
  by (simp add: validateOptions_def result_eval)

lemma validateOptions_warnings:
  "warnings (validateOptions options) =
     pushIf (truthy (typescript options) \<and> truthy (javascript options))
       [''Both TypeScript and JavaScript flags specified. TypeScript will be used'']
     @ pushIf (truthy (mongodb options) \<and> truthy (postgres options))
         [''Both MongoDB and PostgreSQL selected. Both will be included'']
     @ pushIf (length (filter truthy
                 [light options, all_preset options, prod_preset options,
                  min_preset options, api options, fullstack options,
                  microservice options, startup options]) > 1)
         [''Multiple presets specified. Last one will take precedence'']"
  by (simp add: validateOptions_def result_eval pushIf_def)

lemma validateOptions_errors_viewConflict:
  "errors (validateOptions viewConflictFlags) = [''Cannot specify both --no-view and --view'']"
  by (simp add: validateOptions_def result_eval viewConflictFlags_def emptyOptions_def
      truthy_def truthyStr_def interpolate_def SUPPORTED_VIEW_ENGINES_def)

lemma validateProjectName_consistent:
  "valid (validateProjectName w name) = (errors (validateProjectName w name) = [])"
  by (simp add: validateProjectName_def result_eval)

lemma validateProjectPath_consistent:
  "valid (validateProjectPath w path) = (errors (validateProjectPath w path) = [])"
  by (simp add: validateProjectPath_def checkParentWritable_def cannotAccess_def result_eval
      split: sum.splits)

lemma validateOptions_consistent:
  "valid (validateOptions options) = (errors (validateOptions options) = [])"
  by (simp add: validateOptions_def result_eval)

lemma toLowerCase_examples:
  "toLowerCase ''My-App'' = ''my-app''"
  "toLowerCase ''My App'' = ''my app''"
  "toLowerCase ''my-app'' = ''my-app''"
  by (simp_all add: toLowerCase_def lowerChar_def)

lemmas npm_eval =
  npmPackageRules_def npmDone_def pushIf_def startsWith_def trim_def isSpace_def
  coreModules_def lastSegment_def urlFriendly_def scopedName_def Let_def
  toLowerCase_examples

text \<open>What the validator of the package answers for the three names.\<close>

lemma npmPackageRules_My_space_App:
  "npmPackageRules ''My App'' =
     \<lparr> validForNewPackages = False, validForOldPackages = False,
       npm_errors = Some [''name can only contain URL-friendly characters''],
       npm_warnings = Some [''name can no longer contain capital letters''] \<rparr>"
  by (simp add: npm_eval)

lemma npmPackageRules_my_app:
  "npmPackageRules ''my-app'' =
     \<lparr> validForNewPackages = True, validForOldPackages = True,
       npm_errors = None, npm_warnings = None \<rparr>"
  by (simp add: npm_eval)

lemma npmPackageRules_My_App:
  "npmPackageRules ''My-App'' =
     \<lparr> validForNewPackages = False, validForOldPackages = True,
       npm_errors = None,
       npm_warnings = Some [''name can no longer contain capital letters''] \<rparr>"
  by (simp add: npm_eval)

text \<open>
  C4, as stated, fails in its third case: with the name validator of the package,
  \<open>validateProjectName\<close> returns \<open>valid = false\<close> for \<^verbatim>\<open>My-App\<close>, because the validator
  answers a name with capital letters with a warning and so does not accept it for
  new packages, and \<open>validateProjectName\<close> takes \<open>valid\<close> from that verdict.
\<close>

theorem capital_letters_are_invalid:
  "valid (validateProjectName packageWorld ''My-App'') = False"
  by (simp add: validateProjectName_def packageWorld_def npmPackageRules_My_App result_eval)

text \<open>
  C4, amended. With the name validator of the package, in every world:
  \<open>validateProjectName\<close> of \<^verbatim>\<open>My App\<close> is not valid and has errors; of \<^verbatim>\<open>my-app\<close> it is
  valid with no warning and no error; of \<^verbatim>\<open>My-App\<close> it is not valid, with the one error
  that the name must be a valid npm package name, and its warnings are the validator's
  warning about capital letters followed by the lowercase warning. The case check of
  \<open>validateProjectName\<close> itself contributes a warning and no error.
\<close>

theorem validateProjectName_cases:
  "validateProjectName (w \<lparr> validateNpmPackageName := npmPackageRules \<rparr>) ''My App'' =
     \<lparr> valid = False,
       errors = [''Project name must be a valid npm package name'',
                 ''name can only contain URL-friendly characters''],
       warnings = [''name can no longer contain capital letters'',
                   ''Project name should be lowercase''] \<rparr> \<and>
   validateProjectName (w \<lparr> validateNpmPackageName := npmPackageRules \<rparr>) ''my-app'' =
     \<lparr> valid = True, errors = [], warnings = [] \<rparr> \<and>
   validateProjectName (w \<lparr> validateNpmPackageName := npmPackageRules \<rparr>) ''My-App'' =
     \<lparr> valid = False,
       errors = [''Project name must be a valid npm package name''],
       warnings = [''name can no longer contain capital letters'',
                   ''Project name should be lowercase''] \<rparr>"
  by (simp add: validateProjectName_def npmPackageRules_My_space_App
      npmPackageRules_my_app npmPackageRules_My_App toLowerCase_examples result_eval
      optList_def)

text \<open>
  C8. The options check is invalid exactly when the view engine is set and not in the
  allow-list, or the CSS engine is set and not in the allow-list, or \<open>noView\<close> comes
  together with a view engine; nothing else enters \<open>valid\<close>. TypeScript together with
  JavaScript, MongoDB together with PostgreSQL, and more than one active preset each add
  one warning and are the only sources of warnings. \<^verbatim>\<open>{noView: true, view: "ejs"}\<close> is
  invalid.
\<close>

theorem validateOptions_conflict_rules:
  "valid (validateOptions options) =
     (\<not> (truthyStr (view options) \<and>
         interpolate (view options) \<notin> set SUPPORTED_VIEW_ENGINES) \<and>
      \<not> (truthyStr (css options) \<and>
         interpolate (css options) \<notin> set SUPPORTED_CSS_ENGINES) \<and>
      \<not> (truthy (noView options) \<and> truthyStr (view options))) \<and>
   warnings (validateOptions options) =
     pushIf (truthy (typescript options) \<and> truthy (javascript options))
       [''Both TypeScript and JavaScript flags specified. TypeScript will be used'']
     @ pushIf (truthy (mongodb options) \<and> truthy (postgres options))
         [''Both MongoDB and PostgreSQL selected. Both will be included'']
     @ pushIf (length (filter truthy
                 [light options, all_preset options, prod_preset options,
                  min_preset options, api options, fullstack options,
                  microservice options, startup options]) > 1)
         [''Multiple presets specified. Last one will take precedence''] \<and>
   valid (validateOptions viewConflictFlags) = False"
proof (intro conjI)
  show "valid (validateOptions viewConflictFlags) = False"
    by (simp add: validateOptions_consistent validateOptions_errors_viewConflict)
qed (rule validateOptions_valid validateOptions_warnings)+

text \<open>
  C9. For the target path: an existing empty directory under a writable parent gives a
  valid result with no warning and no error; an existing directory with entries under
  a writable parent gives a valid result whose one warning is that files may be
  overwritten; an existing path that is not a directory gives an invalid result; and
  whenever the parent directory is not writable the result is invalid, whatever the
  path itself is.
\<close>

theorem validateProjectPath_cases:
  "(existsSync w path \<and> statSyncIsDirectory w path = Inr True \<and>
      readdirSync w path = Inr [] \<and> accessSyncWritable w (dirname w path)
    \<longrightarrow> validateProjectPath w path = \<lparr> valid = True, errors = [], warnings = [] \<rparr>) \<and>
   (existsSync w path \<and> statSyncIsDirectory w path = Inr True \<and>
      readdirSync w path = Inr files \<and> files \<noteq> [] \<and>
      accessSyncWritable w (dirname w path)
    \<longrightarrow> validateProjectPath w path =
          \<lparr> valid = True, errors = [],
            warnings = [''Directory is not empty. Files may be overwritten''] \<rparr>) \<and>
   (existsSync w path \<and> statSyncIsDirectory w path = Inr False
    \<longrightarrow> validateProjectPath w path =
          \<lparr> valid = False, errors = [''A file with this name already exists''],
            warnings = [] \<rparr>) \<and>
   (\<not> accessSyncWritable w (dirname w path) \<longrightarrow> valid (validateProjectPath w path) = False)"
  by (auto simp add: validateProjectPath_def checkParentWritable_def cannotAccess_def
      result_eval split: sum.splits)

theorem validateProjectPath_witness:
  "validateProjectPath emptyDirWorld ''/work/my-app'' =
     \<lparr> valid = True, errors = [], warnings = [] \<rparr> \<and>
   validateProjectPath usedDirWorld ''/work/my-app'' =
     \<lparr> valid = True, errors = [],
       warnings = [''Directory is not empty. Files may be overwritten''] \<rparr> \<and>
   validateProjectPath plainFileWorld ''/work/my-app'' =
     \<lparr> valid = False, errors = [''A file with this name already exists''],
       warnings = [] \<rparr> \<and>
   valid (validateProjectPath readOnlyParentWorld ''/work/my-app'') = False"
  using validateProjectPath_cases [of emptyDirWorld "''/work/my-app''" "[]"]
    validateProjectPath_cases [of usedDirWorld "''/work/my-app''" "[''README.md'']"]
    validateProjectPath_cases [of plainFileWorld "''/work/my-app''" "[]"]
    validateProjectPath_cases [of readOnlyParentWorld "''/work/my-app''" "[]"]
  by (simp add: emptyDirWorld_def usedDirWorld_def plainFileWorld_def
      readOnlyParentWorld_def quietWorld_def)

text \<open>
  C10. Each of the three checks returns a result whose \<open>valid\<close> is true exactly when its
  list of errors is empty, for every input and every state of the world; the warnings
  do not enter into it.
\<close>

theorem validation_result_consistent:
  "valid (validateProjectName w name) = (errors (validateProjectName w name) = []) \<and>
   valid (validateProjectPath w path) = (errors (validateProjectPath w path) = []) \<and>
   valid (validateOptions options) = (errors (validateOptions options) = [])"
  by (intro conjI validateProjectName_consistent validateProjectPath_consistent
      validateOptions_consistent)

section \<open>Dependency lists: the claim\<close>















section \<open>The create command: the claims\<close>

lemma sanitize_my_app: "sanitizeProjectName ''my-app'' = ''my-app''"
  by (simp add: sanitizeProjectName_def toLowerCase_def lowerChar_def isSpace_def
      stripHyphens_def)

lemma sanitize_My_App: "sanitizeProjectName ''My-App'' = ''my-app''"
  by (simp add: sanitizeProjectName_def toLowerCase_def lowerChar_def isSpace_def
      stripHyphens_def)

lemmas validation_eval =
  validateProjectName_def validateProjectPath_def validateOptions_def
  checkParentWritable_def cannotAccess_def result_eval optList_def toLowerCase_examples
  mergeWithConfig_def loadConfig_def truthy_def truthyStr_def interpolate_def

text \<open>
  C3, as stated, fails: when the target path is an existing file and the options hold
  \<open>noView\<close> together with a view engine, the run prints the error of the path check
  alone and exits; the error of the options check is never reported.
\<close>

theorem path_error_hides_options_error:
  "createProject plainFileWorld (Some ''my-app'') viewConflictFlags =
     \<lparr> exitCode = 1,
       printed = [Info ''[1/6] Validating project configuration...'',
                  Err (''Invalid project path:'' @ newline
                       @ ''A file with this name already exists'')] \<rparr> \<and>
   errors (validateOptions
             (mergeWithConfig plainFileWorld viewConflictFlags (cwd plainFileWorld))) =
     [''Cannot specify both --no-view and --view'']"
  by (simp add: createProject_def validateAndResolve_def finish_def newError_def
      logStep_def plainFileWorld_def quietWorld_def sanitize_my_app validation_eval
      viewConflictFlags_def emptyOptions_def SUPPORTED_VIEW_ENGINES_def)

text \<open>
  C3, amended. The caller runs the three checks in the order name, path, options and
  aborts at the first check that is not valid, with exit code 1 and a message that
  joins the errors of that check only; the later checks are not reported. The warnings
  of each check that passes are printed before the next check runs, so that a run which
  passes all three has printed every warning of every check before it goes on.
\<close>

theorem validation_stops_at_first_failing_check:
  "name \<noteq> [] \<longrightarrow>
   (let nameValidation = validateProjectName w name;
        path = pathResolve w (cwd w) (sanitizeProjectName name);
        pathValidation = validateProjectPath w path;
        optionsValidation = validateOptions (mergeWithConfig w options (cwd w));
        step1 = logStep ''1'' ''Validating project configuration...'';
        step2 = logStep ''2'' ''Resolving project options...''
    in (\<not> valid nameValidation \<longrightarrow>
          createProject w (Some name) options =
            \<lparr> exitCode = 1,
              printed = [step1, Err (''Invalid project name:'' @ newline
                                     @ join newline (errors nameValidation))] \<rparr>) \<and>
       (valid nameValidation \<and> \<not> valid pathValidation \<longrightarrow>
          createProject w (Some name) options =
            \<lparr> exitCode = 1,
              printed = [step1] @ map Warn (warnings nameValidation)
                        @ [Err (''Invalid project path:'' @ newline
                                @ join newline (errors pathValidation))] \<rparr>) \<and>
       (valid nameValidation \<and> valid pathValidation \<and> \<not> valid optionsValidation \<longrightarrow>
          createProject w (Some name) options =
            \<lparr> exitCode = 1,
              printed = [step1] @ map Warn (warnings nameValidation)
                        @ map Warn (warnings pathValidation) @ [step2]
                        @ [Err (''Invalid options:'' @ newline
                                @ join newline (errors optionsValidation))] \<rparr>) \<and>
       (valid nameValidation \<and> valid pathValidation \<and> valid optionsValidation \<longrightarrow>
          (\<exists>rest. printed (createProject w (Some name) options) =
             [step1] @ map Warn (warnings nameValidation)
             @ map Warn (warnings pathValidation) @ [step2]
             @ map Warn (warnings optionsValidation) @ rest)))"
  by (auto simp add: createProject_def validateAndResolve_def truthyStr_def
      interpolate_def Let_def finish_def newError_def split: prod.splits option.splits)

theorem validation_stops_witness:
  "createProject capitalsWorld (Some ''My-App'') viewConflictFlags =
     \<lparr> exitCode = 1,
       printed = [Info ''[1/6] Validating project configuration...'',
                  Err (''Invalid project name:'' @ newline
                       @ ''Project name must be a valid npm package name'')] \<rparr> \<and>
   createProject usedDirWorld (Some ''my-app'') viewConflictFlags =
     \<lparr> exitCode = 1,
       printed = [Info ''[1/6] Validating project configuration...'',
                  Warn ''Directory is not empty. Files may be overwritten'',
                  Info ''[2/6] Resolving project options...'',
                  Err (''Invalid options:'' @ newline
                       @ ''Cannot specify both --no-view and --view'')] \<rparr>"
  using validation_stops_at_first_failing_check
      [of "''My-App''" capitalsWorld viewConflictFlags]
    validation_stops_at_first_failing_check
      [of "''my-app''" usedDirWorld viewConflictFlags]
  by (simp add: Let_def logStep_def capitalsWorld_def usedDirWorld_def quietWorld_def
      npmCapitalLetters_def sanitize_my_app sanitize_My_App validation_eval
      viewConflictFlags_def emptyOptions_def SUPPORTED_VIEW_ENGINES_def)

subsection \<open>After materialisation\<close>

lemma installDependencies_logged:
  "installDependencies w r = (ilg, Some e) \<Longrightarrow>
   ilg \<noteq> [] \<and> last ilg = Err (''Failed to install dependencies: '' @ errorToString e)"
  by (auto simp add: installDependencies_def installFailed_def Let_def
      split: prod.splits option.splits)

lemma run_install_fail:
  assumes "validateAndResolve w name options = (lg, Inr r)"
    and "\<not> truthy (dryRun options)" and "materialize w r = None"
    and "\<not> truthy (skipInstall options)" and "installDependencies w r = (ilg, Some e)"
  shows "createProject w name options =
     \<lparr> exitCode = 1,
       printed = lg @ [logStep ''3'' ''Creating project structure...'',
                       logStep ''4'' ''Installing dependencies...'']
                 @ ilg @ [Err (message e)] \<rparr>"
  using assms by (simp add: createProject_def buildProject_def finish_def Let_def)

lemma run_success:
  assumes "validateAndResolve w name options = (lg, Inr r)"
    and "\<not> truthy (dryRun options)" and "materialize w r = None"
    and "truthy (skipInstall options) \<or> snd (installDependencies w r) = None"
  shows "exitCode (createProject w name options) = 0 \<and>
         last (printed (createProject w name options)) =
           Success ''Project created successfully!''"
  using assms
  by (cases "installDependencies w r")
     (auto simp add: createProject_def buildProject_def finish_def Let_def)

lemma initializeGit_failure_logged:
  "snd (initializeGitTry w path) = Some e \<Longrightarrow>
   last (initializeGit w path) = Info ''Continuing without Git initialization...''"
  by (cases "initializeGitTry w path") (simp add: initializeGit_def)

lemma dependencies_nonempty: "getRequiredDependencies r \<noteq> []"
  by (simp add: getRequiredDependencies_def)

lemma install_fails_when_command_fails:
  assumes "\<And>c args dir. \<not> success (executeCommand w c args dir)"
  shows "snd (installDependencies w r) \<noteq> None"
  using assms dependencies_nonempty [of r]
  by (simp add: installDependencies_def installStep_def installPackages_def
      installFailed_def Let_def)

lemma install_succeeds_when_command_succeeds:
  assumes "\<And>c args dir. success (executeCommand w c args dir)"
  shows "snd (installDependencies w r) = None"
  using assms
  by (simp add: installDependencies_def installStep_def installPackages_def Let_def)

lemma validateAndResolve_quiet:
  "validateAndResolve (quietWorld \<lparr> executeCommand := x, gitInit := g \<rparr>)
     (Some ''my-app'') emptyOptions =
     ([Info ''[1/6] Validating project configuration...'',
       Info ''[2/6] Resolving project options...''],
      Inr (resolveOptions (quietWorld \<lparr> executeCommand := x, gitInit := g \<rparr>)
             ''my-app'' ''/work/my-app'' emptyOptions))"
  by (simp add: validateAndResolve_def Let_def quietWorld_def sanitize_my_app
      validation_eval logStep_def emptyOptions_def)

lemma validateAndResolve_installFail:
  "validateAndResolve installFailWorld (Some ''my-app'') emptyOptions =
     ([Info ''[1/6] Validating project configuration...'',
       Info ''[2/6] Resolving project options...''],
      Inr (resolveOptions installFailWorld ''my-app'' ''/work/my-app'' emptyOptions))"
  using validateAndResolve_quiet
    [where x = "executeCommand installFailWorld" and g = "gitInit quietWorld"]
  by (simp add: installFailWorld_def quietWorld_def)

lemma validateAndResolve_gitFail:
  "validateAndResolve gitFailWorld (Some ''my-app'') emptyOptions =
     ([Info ''[1/6] Validating project configuration...'',
       Info ''[2/6] Resolving project options...''],
      Inr (resolveOptions gitFailWorld ''my-app'' ''/work/my-app'' emptyOptions))"
  using validateAndResolve_quiet
    [where x = "executeCommand quietWorld" and g = "gitInit gitFailWorld"]
  by (simp add: gitFailWorld_def quietWorld_def)

lemma emptyOptions_runs_all_stages:
  "\<not> truthy (dryRun emptyOptions)" "\<not> truthy (skipInstall emptyOptions)"
  by (simp_all add: emptyOptions_def truthy_def)

text \<open>
  C5, as stated, fails for the installer: with the project materialised and a package
  manager whose command fails, the run exits with code 1.
\<close>

theorem failed_install_exits_nonzero:
  "exitCode (createProject installFailWorld (Some ''my-app'') emptyOptions) = 1"
proof -
  let ?r = "resolveOptions installFailWorld ''my-app'' ''/work/my-app'' emptyOptions"
  have "snd (installDependencies installFailWorld ?r) \<noteq> None"
    by (rule install_fails_when_command_fails) (simp add: installFailWorld_def)
  then obtain ilg e where i: "installDependencies installFailWorld ?r = (ilg, Some e)"
    by (cases "installDependencies installFailWorld ?r") auto
  have mat: "materialize installFailWorld ?r = None"
    by (simp add: materialize_def installFailWorld_def quietWorld_def)
  from run_install_fail [OF validateAndResolve_installFail
      emptyOptions_runs_all_stages(1) mat emptyOptions_runs_all_stages(2) i]
  show ?thesis by simp
qed

text \<open>
  C5, amended. Take a run that passed validation, is not a dry run, and whose
  materialisation succeeded. If the installer is skipped or succeeds, the run ends with
  exit code 0 and its last line reports success, whatever git does; an error that
  leaves the body of \<open>initializeGit\<close> is logged, followed by the line that the run
  continues without git. If the installer is not skipped and fails, the failure is
  logged and thrown again: the run exits with code 1.
\<close>

theorem supplementary_stages:
  "validateAndResolve w name options = (lg, Inr r) \<and> \<not> truthy (dryRun options) \<and>
   materialize w r = None \<longrightarrow>
     ((truthy (skipInstall options) \<or> snd (installDependencies w r) = None) \<longrightarrow>
        exitCode (createProject w name options) = 0 \<and>
        last (printed (createProject w name options)) =
          Success ''Project created successfully!'') \<and>
     (snd (initializeGitTry w (projectPath r)) = Some e \<longrightarrow>
        last (initializeGit w (projectPath r)) =
          Info ''Continuing without Git initialization...'') \<and>
     (\<not> truthy (skipInstall options) \<and> snd (installDependencies w r) = Some e \<longrightarrow>
        exitCode (createProject w name options) = 1 \<and>
        Err (''Failed to install dependencies: '' @ errorToString e)
          \<in> set (printed (createProject w name options)))"
proof (intro impI conjI; (elim conjE)?)
  assume vr: "validateAndResolve w name options = (lg, Inr r)"
    and dry: "\<not> truthy (dryRun options)" and mat: "materialize w r = None"
  {
    assume "truthy (skipInstall options) \<or> snd (installDependencies w r) = None"
    with run_success [OF vr dry mat]
    show "exitCode (createProject w name options) = 0"
      and "last (printed (createProject w name options)) =
             Success ''Project created successfully!''"
      by simp_all
  }
  {
    assume skip: "\<not> truthy (skipInstall options)"
      and inst: "snd (installDependencies w r) = Some e"
    then obtain ilg where i: "installDependencies w r = (ilg, Some e)"
      by (cases "installDependencies w r") simp
    from run_install_fail [OF vr dry mat skip i] installDependencies_logged [OF i]
    show "exitCode (createProject w name options) = 1"
      and "Err (''Failed to install dependencies: '' @ errorToString e)
             \<in> set (printed (createProject w name options))"
      by (simp_all, metis last_in_set)
  }
  {
    assume "snd (initializeGitTry w (projectPath r)) = Some e"
    then show "last (initializeGit w (projectPath r)) =
                 Info ''Continuing without Git initialization...''"
      by (rule initializeGit_failure_logged)
  }
qed

theorem supplementary_stages_witness:
  "exitCode (createProject gitFailWorld (Some ''my-app'') emptyOptions) = 0 \<and>
   last (printed (createProject gitFailWorld (Some ''my-app'') emptyOptions)) =
     Success ''Project created successfully!'' \<and>
   last (initializeGit gitFailWorld ''/work/my-app'') =
     Info ''Continuing without Git initialization...'' \<and>
   exitCode (createProject installFailWorld (Some ''my-app'') emptyOptions) = 1 \<and>
   Err ''Failed to install dependencies: Error: npm ERR! network''
     \<in> set (printed (createProject installFailWorld (Some ''my-app'') emptyOptions))"
proof -
  let ?r = "resolveOptions gitFailWorld ''my-app'' ''/work/my-app'' emptyOptions"
  let ?e = "newError ''fatal: cannot mkdir .git''"
  let ?r' = "resolveOptions installFailWorld ''my-app'' ''/work/my-app'' emptyOptions"
  let ?e' = "newError ''npm ERR! network''"
  have mat: "materialize gitFailWorld ?r = None"
    by (simp add: materialize_def gitFailWorld_def quietWorld_def)
  have inst: "snd (installDependencies gitFailWorld ?r) = None"
    by (rule install_succeeds_when_command_succeeds)
       (simp add: gitFailWorld_def quietWorld_def)
  have git: "snd (initializeGitTry gitFailWorld (projectPath ?r)) = Some ?e"
    by (simp add: initializeGitTry_def isGitAvailable_def isGitRepository_def
        gitFailWorld_def quietWorld_def)
  have mat': "materialize installFailWorld ?r' = None"
    by (simp add: materialize_def installFailWorld_def quietWorld_def)
  have inst': "snd (installDependencies installFailWorld ?r') = Some ?e'"
    using dependencies_nonempty [of ?r']
    by (simp add: installDependencies_def installStep_def installPackages_def
        installFailed_def Let_def installFailWorld_def truthyStr_def interpolate_def)
  from supplementary_stages [of gitFailWorld "Some ''my-app''" emptyOptions _ ?r ?e]
    supplementary_stages [of installFailWorld "Some ''my-app''" emptyOptions _ ?r' ?e']
    validateAndResolve_gitFail validateAndResolve_installFail
    emptyOptions_runs_all_stages mat inst git mat' inst'
  show ?thesis by (simp add: resolveOptions_sel errorToString_def newError_def)
qed

end
